theory Spec2Isabelle
  imports Complex_Main
begin

section \<open>Data model of backend/server.py\<close>

text \<open>
  The enumerations of the backend are datatypes, the pydantic models are records.
  A \<open>datetime\<close> is offset-aware or offset-naive. An aware one is an instant on the UTC
  time line, counted in microseconds; a naive one is a wall-clock reading in
  microseconds with no offset. The pydantic fields of type \<open>datetime\<close> accept both.
  Fields named \<open>id\<close> and \<open>created_at\<close> occur in several models and carry the
  model's name as a prefix here.
\<close>

datatype UserRole = ADMIN | TEACHER

datatype ContractType = FULL_TIME | PART_TIME | HOURLY

datatype PermitType = VACATION_57 | ECONOMIC_62

datatype PermitStatus = PENDING | APPROVED | REJECTED

datatype datetime = Aware int | Naive int

record User =
  user_id :: string
  email :: string
  name :: string
  role :: UserRole
  contract_type :: "ContractType option"
  hire_date :: "datetime option"
  user_created_at :: datetime

record Permit =
  permit_id :: string
  teacher_id :: string
  teacher_name :: string
  permit_type :: PermitType
  start_date :: datetime
  end_date :: datetime
  days_requested :: int
  reason :: string
  status :: PermitStatus
  permit_created_at :: datetime
  reviewed_at :: "datetime option"
  reviewed_by :: "string option"
  rejection_reason :: "string option"

record PermitCreate =
  new_permit_type :: PermitType
  new_start_date :: datetime
  new_end_date :: datetime
  new_days_requested :: int
  new_reason :: string

record PermitReview =
  review_status :: PermitStatus
  review_rejection_reason :: "string option"

record DaysAvailable =
  vacation_period_1 :: int
  vacation_period_2 :: int
  vacation_additional :: int
  economic_days :: int
  total_vacation :: int
  total_economic :: int

text \<open>
  What a handler can raise: Python's \<open>TypeError\<close>, and the three
  \<open>HTTPException\<close>s of the modelled handlers (status 403, 404, and 400 with the
  bucket and the available days of its message).
\<close>

datatype exception =
    TypeError
  | Forbidden
  | NotFound
  | InsufficientBalance PermitType int

section \<open>Entitlement calculation\<close>

text \<open>
  The difference of two datetimes is a \<open>timedelta\<close>, here in microseconds. Python
  subtracts two aware or two naive datetimes and raises \<open>TypeError\<close> for an aware
  and a naive one.
\<close>

fun datetime_sub :: "datetime \<Rightarrow> datetime \<Rightarrow> exception + int" where
  "datetime_sub (Aware a) (Aware b) = Inr (a - b)"
| "datetime_sub (Naive a) (Naive b) = Inr (a - b)"
| "datetime_sub (Aware a) (Naive b) = Inl TypeError"
| "datetime_sub (Naive a) (Aware b) = Inl TypeError"

text \<open>
  \<open>timedelta_days\<close> is the \<open>.days\<close> attribute of a timedelta (Python normalises a
  timedelta so that the days carry the sign and the remainder is non-negative, which
  is floor division).
\<close>

definition timedelta_days :: "int \<Rightarrow> int" where
  "timedelta_days td = td div 86400000000"

text \<open>
  \<open>years_of_service = (datetime.now(timezone.utc) - user.hire_date).days / 365.25\<close>,
  as a function of the timedelta. The quotient of the integer day count by 365.25 is
  taken exactly, as a rational number.
\<close>

definition years_of_service :: "int \<Rightarrow> rat" where
  "years_of_service td = of_int (timedelta_days td) / (1461 / 4)"

text \<open>Python's \<open>int(x)\<close> on a fractional number truncates toward zero.\<close>

definition py_int :: "rat \<Rightarrow> int" where
  "py_int x = (if 0 \<le> x then \<lfloor>x\<rfloor> else \<lceil>x\<rceil>)"

text \<open>
  The value of the local \<open>vacation_additional\<close> after the accrual branch
  (lines 154 to 165), before any used day is taken off.
\<close>

definition accrued_vacation_additional :: "ContractType \<Rightarrow> rat \<Rightarrow> int" where
  "accrued_vacation_additional ct yos =
     (if ct = FULL_TIME \<or> ct = PART_TIME then
        (if 6 \<le> yos then
           (let years_after_five = py_int (yos - 5);
                vacation_additional = min (5 + years_after_five) 15
            in if ct = FULL_TIME then min vacation_additional 8
               else min vacation_additional 8)
         else if 5 < yos then 5
         else 0)
      else 0)"

text \<open>The value of the local \<open>economic_days\<close> (lines 167 to 169).\<close>

definition accrued_economic_days :: "rat \<Rightarrow> int" where
  "accrued_economic_days yos =
     (let economic_base = 8;
          economic_additional = py_int (yos / 10)
      in economic_base + economic_additional)"

definition approved_permits :: "Permit list \<Rightarrow> Permit list" where
  "approved_permits permits = filter (\<lambda>p. status p = APPROVED) permits"

definition vacation_used :: "Permit list \<Rightarrow> int" where
  "vacation_used permits =
     sum_list (map days_requested
       (filter (\<lambda>p. permit_type p = VACATION_57) (approved_permits permits)))"

definition economic_used :: "Permit list \<Rightarrow> int" where
  "economic_used permits =
     sum_list (map days_requested
       (filter (\<lambda>p. permit_type p = ECONOMIC_62) (approved_permits permits)))"

definition zero_days :: DaysAvailable where
  "zero_days =
     \<lparr>vacation_period_1 = 0, vacation_period_2 = 0, vacation_additional = 0,
      economic_days = 0, total_vacation = 0, total_economic = 0\<rparr>"

text \<open>
  \<open>calculate_days_available\<close>. The function reads the clock; the reading is the
  first argument here, and \<open>datetime.now(timezone.utc)\<close> is the aware datetime of
  that instant. A \<open>datetime\<close> is always truthy and so is each member of
  \<open>ContractType\<close> (a non-empty string), so \<open>not user.hire_date\<close> and
  \<open>not user.contract_type\<close> test for \<open>None\<close>. The subtraction of line 150 raises
  for a naive hire date; nothing in the function catches it.
\<close>

definition calculate_days_available :: "int \<Rightarrow> User \<Rightarrow> Permit list \<Rightarrow> exception + DaysAvailable" where
  "calculate_days_available now user permits =
     (case hire_date user of
        None \<Rightarrow> Inr zero_days
      | Some hired \<Rightarrow>
         (case contract_type user of
            None \<Rightarrow> Inr zero_days
          | Some ct \<Rightarrow>
             (case datetime_sub (Aware now) hired of
                Inl e \<Rightarrow> Inl e
              | Inr td \<Rightarrow>
                 (let yos = years_of_service td;
                      period_1 = 10;
                      period_2 = 10;
                      additional = accrued_vacation_additional ct yos;
                      economic = accrued_economic_days yos;
                      v_used = vacation_used permits;
                      e_used = economic_used permits;
                      total_vacation_available = period_1 + period_2 + additional;
                      total_economic_available = economic
                  in Inr
                      \<lparr>vacation_period_1 = max 0 (period_1 - min v_used period_1),
                       vacation_period_2 = max 0 (period_2 - max 0 (v_used - period_1)),
                       vacation_additional =
                         max 0 (additional - max 0 (v_used - (period_1 + period_2))),
                       economic_days = max 0 (total_economic_available - e_used),
                       total_vacation = max 0 (total_vacation_available - v_used),
                       total_economic = max 0 (total_economic_available - e_used)\<rparr>))))"

section \<open>Permit creation and review\<close>

text \<open>
  The \<open>permits\<close> collection of the database is the list of its documents in
  storage order. \<open>find_permits\<close> is
  \<open>db.permits.find({"teacher_id": ...}).to_list(1000)\<close>: at most the first 1000
  documents of the teacher. The \<open>notifications\<close> collection, which the handlers
  write and never read, is left out.
\<close>

definition find_permits :: "string \<Rightarrow> Permit list \<Rightarrow> Permit list" where
  "find_permits tid db = take 1000 (filter (\<lambda>p. teacher_id p = tid) db)"

text \<open>
  The balance check of \<open>create_permit\<close> (lines 291 to 298). An exception of
  \<open>calculate_days_available\<close> passes through.
\<close>

definition check_balance :: "int \<Rightarrow> User \<Rightarrow> Permit list \<Rightarrow> PermitCreate \<Rightarrow> exception + unit" where
  "check_balance now current_user permits permit_data =
     (case calculate_days_available now current_user permits of
        Inl e \<Rightarrow> Inl e
      | Inr days_available \<Rightarrow>
         (if new_permit_type permit_data = VACATION_57 then
            (if new_days_requested permit_data > total_vacation days_available
             then Inl (InsufficientBalance VACATION_57 (total_vacation days_available))
             else Inr ())
          else
            (if new_days_requested permit_data > total_economic days_available
             then Inl (InsufficientBalance ECONOMIC_62 (total_economic days_available))
             else Inr ())))"

text \<open>
  The permit that \<open>create_permit\<close> builds: the fields of the request, the caller's
  identity and the defaults of the model (\<open>status = PENDING\<close>, no review data).
  The fresh uuid and the clock reading are arguments.
\<close>

definition new_permit :: "string \<Rightarrow> int \<Rightarrow> User \<Rightarrow> PermitCreate \<Rightarrow> Permit" where
  "new_permit fresh_id now current_user permit_data =
     \<lparr>permit_id = fresh_id,
      teacher_id = user_id current_user,
      teacher_name = name current_user,
      permit_type = new_permit_type permit_data,
      start_date = new_start_date permit_data,
      end_date = new_end_date permit_data,
      days_requested = new_days_requested permit_data,
      reason = new_reason permit_data,
      status = PENDING,
      permit_created_at = Aware now,
      reviewed_at = None,
      reviewed_by = None,
      rejection_reason = None\<rparr>"

text \<open>
  \<open>create_permit\<close>: the result is the exception raised, or the permit returned
  together with the collection after \<open>insert_one\<close>.
\<close>

definition create_permit ::
  "string \<Rightarrow> int \<Rightarrow> User \<Rightarrow> PermitCreate \<Rightarrow> Permit list \<Rightarrow> exception + (Permit \<times> Permit list)" where
  "create_permit fresh_id now current_user permit_data db =
     (if role current_user \<noteq> TEACHER then Inl Forbidden
      else
        (let permits = find_permits (user_id current_user) db
         in case check_balance now current_user permits permit_data of
              Inl e \<Rightarrow> Inl e
            | Inr _ \<Rightarrow>
               (let permit = new_permit fresh_id now current_user permit_data
                in Inr (permit, db @ [permit]))))"

text \<open>\<open>find_one({"id": permit_id})\<close>: the first document with that id, if any.\<close>

definition find_one :: "string \<Rightarrow> Permit list \<Rightarrow> Permit option" where
  "find_one pid db = List.find (\<lambda>p. permit_id p = pid) db"

text \<open>\<open>update_one({"id": permit_id}, {"$set": ...})\<close>: only the first match is changed.\<close>

fun update_one :: "string \<Rightarrow> (Permit \<Rightarrow> Permit) \<Rightarrow> Permit list \<Rightarrow> Permit list" where
  "update_one pid f [] = []"
| "update_one pid f (p # ps) =
     (if permit_id p = pid then f p # ps else p # update_one pid f ps)"

text \<open>
  The \<open>update_data\<close> dictionary of \<open>review_permit\<close>, applied to a document:
  status, review time and reviewer are always set, the rejection reason only when the
  review carries a non-empty one.
\<close>

definition apply_review :: "int \<Rightarrow> User \<Rightarrow> PermitReview \<Rightarrow> Permit \<Rightarrow> Permit" where
  "apply_review now current_user review p =
     p\<lparr>status := review_status review,
       reviewed_at := Some (Aware now),
       reviewed_by := Some (name current_user),
       rejection_reason :=
         (case review_rejection_reason review of
            None \<Rightarrow> rejection_reason p
          | Some r \<Rightarrow> if r = [] then rejection_reason p else Some r)\<rparr>"

definition review_permit ::
  "int \<Rightarrow> User \<Rightarrow> string \<Rightarrow> PermitReview \<Rightarrow> Permit list \<Rightarrow> exception + (Permit \<times> Permit list)" where
  "review_permit now current_user pid review db =
     (if role current_user \<noteq> ADMIN then Inl Forbidden
      else
        (case find_one pid db of
           None \<Rightarrow> Inl NotFound
         | Some permit_doc \<Rightarrow>
             Inr (apply_review now current_user review permit_doc,
                  update_one pid (apply_review now current_user review) db)))"

section \<open>Concrete records\<close>

text \<open>
  The accounts of scripts/seed_data.py (an administrator without contract type and hire
  date, a teacher with both), a permit document and the bodies of the two requests,
  for evaluating the functions on concrete inputs. \<open>days n\<close> is \<open>timedelta(days=n)\<close>.
\<close>

definition days :: "int \<Rightarrow> int" where
  "days n = n * 86400000000"

definition example_teacher :: "ContractType \<Rightarrow> datetime \<Rightarrow> User" where
  "example_teacher ct hired =
     \<lparr>user_id = ''teacher-001'', email = ''profesor@universidad.edu'',
      name = ''Maria Garcia Lopez'', role = TEACHER,
      contract_type = Some ct, hire_date = Some hired, user_created_at = Aware 0\<rparr>"

definition example_admin :: User where
  "example_admin =
     \<lparr>user_id = ''admin-001'', email = ''admin@universidad.edu'',
      name = ''Administrador Principal'', role = ADMIN,
      contract_type = None, hire_date = None, user_created_at = Aware 0\<rparr>"

definition example_permit :: "string \<Rightarrow> PermitType \<Rightarrow> int \<Rightarrow> PermitStatus \<Rightarrow> Permit" where
  "example_permit pid ty n st =
     \<lparr>permit_id = pid, teacher_id = ''teacher-001'', teacher_name = ''Maria Garcia Lopez'',
      permit_type = ty, start_date = Aware 0, end_date = Aware 0, days_requested = n,
      reason = ''Vacaciones'', status = st, permit_created_at = Aware 0,
      reviewed_at = None, reviewed_by = None, rejection_reason = None\<rparr>"

definition example_request :: "PermitType \<Rightarrow> int \<Rightarrow> PermitCreate" where
  "example_request ty n =
     \<lparr>new_permit_type = ty, new_start_date = Aware 0, new_end_date = Aware 0,
      new_days_requested = n, new_reason = ''Vacaciones''\<rparr>"

definition example_review :: "PermitStatus \<Rightarrow> PermitReview" where
  "example_review st = \<lparr>review_status = st, review_rejection_reason = None\<rparr>"

section \<open>Auxiliary facts\<close>

text \<open>
  The snapshot of an employee with a complete profile and an aware hire date, with the
  locals unfolded.
\<close>

lemma calculate_days_available_profile:
  assumes "hire_date user = Some (Aware hired)" and "contract_type user = Some ct"
  shows "calculate_days_available now user permits = Inr
     \<lparr>vacation_period_1 = max 0 (10 - min (vacation_used permits) 10),
      vacation_period_2 = max 0 (10 - max 0 (vacation_used permits - 10)),
      vacation_additional =
        max 0 (accrued_vacation_additional ct (years_of_service (now - hired))
                 - max 0 (vacation_used permits - 20)),
      economic_days =
        max 0 (accrued_economic_days (years_of_service (now - hired))
                 - economic_used permits),
      total_vacation =
        max 0 (20 + accrued_vacation_additional ct (years_of_service (now - hired))
                 - vacation_used permits),
      total_economic =
        max 0 (accrued_economic_days (years_of_service (now - hired))
                 - economic_used permits)\<rparr>"
  using assms by (simp add: calculate_days_available_def Let_def)

text \<open>With a complete profile and a naive hire date the function raises.\<close>

lemma calculate_days_available_naive:
  assumes "hire_date user = Some (Naive hired)" and "contract_type user = Some ct"
  shows "calculate_days_available now user permits = Inl TypeError"
  using assms by (simp add: calculate_days_available_def)

lemma accrued_vacation_additional_nonneg: "0 \<le> accrued_vacation_additional ct yos"
  by (auto simp: accrued_vacation_additional_def py_int_def Let_def)

text \<open>
  The intermediate cap of 15 never decides the result, and the truncation is only
  applied to a tenure of at least six years, where it is the floor.
\<close>

lemma accrued_vacation_additional_cases:
  "accrued_vacation_additional ct yos =
     (if ct = HOURLY then 0
      else if yos \<le> 5 then 0
      else if yos < 6 then 5
      else min (5 + \<lfloor>yos - 5\<rfloor>) 8)"
  by (cases ct) (auto simp: accrued_vacation_additional_def py_int_def Let_def)

lemma used_drop_not_approved:
  assumes "status p \<noteq> APPROVED"
  shows "vacation_used (xs @ p # ys) = vacation_used (xs @ ys)"
    and "economic_used (xs @ p # ys) = economic_used (xs @ ys)"
  using assms by (simp_all add: vacation_used_def economic_used_def approved_permits_def)

lemma calculate_days_available_used:
  assumes "vacation_used ps = vacation_used qs" and "economic_used ps = economic_used qs"
  shows "calculate_days_available now user ps = calculate_days_available now user qs"
  using assms by (simp add: calculate_days_available_def split: option.splits sum.splits)

lemma permit_id_apply_review: "permit_id (apply_review now u review p) = permit_id p"
  by (simp add: apply_review_def)

lemma find_one_update_one:
  assumes "find_one pid db = Some p" and "permit_id (f p) = permit_id p"
  shows "find_one pid (update_one pid f db) = Some (f p)"
  using assms by (induction db) (auto simp: find_one_def split: if_splits)

lemma update_one_others:
  assumes "\<And>q. permit_id (f q) = permit_id q"
  shows "filter (\<lambda>q. permit_id q \<noteq> pid) (update_one pid f db) =
         filter (\<lambda>q. permit_id q \<noteq> pid) db"
  using assms by (induction db) auto

lemma length_update_one: "length (update_one pid f db) = length db"
  by (induction db) auto

section \<open>Tenure-based accrual\<close>

text \<open>
  C1 (as amended): for an employee with an offset-aware hire date and a full-time or
  part-time contract the additional vacation bucket is 0 when the years of service are
  at most 5, 5 when they are strictly between 5 and 6, and
  \<open>min (5 + floor (years - 5)) 8\<close> from 6 years on; for an hourly contract it is 0
  whatever the tenure. This is the value the code accrues, and the function returns a
  snapshot whose field is that value as long as the approved vacation days do not reach
  into the bucket (at most 20 of them).
\<close>

theorem additional_bucket_by_tenure:
  assumes "hire_date user = Some (Aware hired)" and "contract_type user = Some ct"
    and "yos = years_of_service (now - hired)"
    and "vacation_used permits \<le> 20"
  shows "accrued_vacation_additional ct yos =
           (if ct = HOURLY then 0
            else if yos \<le> 5 then 0
            else if 5 < yos \<and> yos < 6 then 5
            else min (5 + \<lfloor>yos - 5\<rfloor>) 8) \<and>
         (\<exists>d. calculate_days_available now user permits = Inr d \<and>
              vacation_additional d = accrued_vacation_additional ct yos)"
proof -
  have "\<exists>d. calculate_days_available now user permits = Inr d \<and>
             vacation_additional d = accrued_vacation_additional ct yos"
    using assms accrued_vacation_additional_nonneg [of ct yos]
    by (simp add: calculate_days_available_profile)
  then show ?thesis
    by (simp add: accrued_vacation_additional_cases)
qed

theorem additional_bucket_by_tenure_witness:
  "hire_date (example_teacher FULL_TIME (Aware 0)) = Some (Aware 0) \<and>
   contract_type (example_teacher FULL_TIME (Aware 0)) = Some FULL_TIME \<and>
   vacation_used [] \<le> 20 \<and>
   5 < years_of_service (days 2009 - 0) \<and> years_of_service (days 2009 - 0) < 6 \<and>
   accrued_vacation_additional FULL_TIME (years_of_service (days 2009 - 0)) = 5 \<and>
   calculate_days_available (days 2009) (example_teacher FULL_TIME (Aware 0)) [] =
     Inr \<lparr>vacation_period_1 = 10, vacation_period_2 = 10, vacation_additional = 5,
          economic_days = 8, total_vacation = 25, total_economic = 8\<rparr>"
proof -
  have h: "hire_date (example_teacher FULL_TIME (Aware 0)) = Some (Aware 0)"
    and c: "contract_type (example_teacher FULL_TIME (Aware 0)) = Some FULL_TIME"
    by (simp_all add: example_teacher_def)
  have u: "vacation_used [] \<le> 20"
    by (simp add: vacation_used_def approved_permits_def)
  have y: "5 < years_of_service (days 2009 - 0) \<and> years_of_service (days 2009 - 0) < 6"
    by code_simp
  have e: "calculate_days_available (days 2009) (example_teacher FULL_TIME (Aware 0)) [] =
     Inr \<lparr>vacation_period_1 = 10, vacation_period_2 = 10, vacation_additional = 5,
          economic_days = 8, total_vacation = 25, total_economic = 8\<rparr>"
    by code_simp
  from additional_bucket_by_tenure [OF h c refl u, of "days 2009"] h c u y e
  show ?thesis by simp
qed

text \<open>
  The claim as stated, for every employee with a hire date, fails for an offset-naive
  hire date: the subtraction from the aware clock reading raises and no bucket is set.
\<close>

theorem additional_bucket_by_tenure_counterexample:
  "calculate_days_available (days 2009) (example_teacher FULL_TIME (Naive 0)) [] =
     Inl TypeError"
  by code_simp

section \<open>Allocation of used vacation days\<close>

text \<open>
  C2 (as amended): for an employee with an offset-aware hire date and a contract type
  and a non-negative total \<open>u\<close> of approved vacation days, the function returns a
  snapshot in which the used days are taken from period 1 (cap 10), then period 2
  (cap 10), then the additional bucket (cap: the accrued value): each remaining value is
  \<open>max 0 (cap - max 0 (u - caps of the earlier buckets))\<close>, and the total is
  \<open>max 0 ((10 + 10 + additional) - u)\<close>.
\<close>

theorem vacation_allocation_order:
  assumes "hire_date user = Some (Aware hired)" and "contract_type user = Some ct"
    and "additional = accrued_vacation_additional ct (years_of_service (now - hired))"
    and "u = vacation_used permits" and "0 \<le> u"
  shows "\<exists>d. calculate_days_available now user permits = Inr d \<and>
         vacation_period_1 d = max 0 (10 - max 0 (u - 0)) \<and>
         vacation_period_2 d = max 0 (10 - max 0 (u - 10)) \<and>
         vacation_additional d = max 0 (additional - max 0 (u - (10 + 10))) \<and>
         total_vacation d = max 0 ((10 + 10 + additional) - u)"
  using assms by (simp add: calculate_days_available_profile)

text \<open>The spec's example: additional = 5 and 15 used days leave 0, 5 and 5.\<close>

theorem vacation_allocation_order_witness:
  "hire_date (example_teacher FULL_TIME (Aware 0)) = Some (Aware 0) \<and>
   contract_type (example_teacher FULL_TIME (Aware 0)) = Some FULL_TIME \<and>
   accrued_vacation_additional FULL_TIME (years_of_service (days 2009 - 0)) = 5 \<and>
   vacation_used [example_permit ''p1'' VACATION_57 15 APPROVED] = 15 \<and>
   calculate_days_available (days 2009) (example_teacher FULL_TIME (Aware 0))
     [example_permit ''p1'' VACATION_57 15 APPROVED] =
     Inr \<lparr>vacation_period_1 = 0, vacation_period_2 = 5, vacation_additional = 5,
          economic_days = 8, total_vacation = 10, total_economic = 8\<rparr>"
proof -
  have h: "hire_date (example_teacher FULL_TIME (Aware 0)) = Some (Aware 0)"
    and c: "contract_type (example_teacher FULL_TIME (Aware 0)) = Some FULL_TIME"
    by (simp_all add: example_teacher_def)
  have a: "accrued_vacation_additional FULL_TIME (years_of_service (days 2009 - 0)) = 5"
    by code_simp
  have u: "vacation_used [example_permit ''p1'' VACATION_57 15 APPROVED] = 15"
    by code_simp
  have n: "0 \<le> vacation_used [example_permit ''p1'' VACATION_57 15 APPROVED]"
    by (simp add: u)
  have e: "calculate_days_available (days 2009) (example_teacher FULL_TIME (Aware 0))
     [example_permit ''p1'' VACATION_57 15 APPROVED] =
     Inr \<lparr>vacation_period_1 = 0, vacation_period_2 = 5, vacation_additional = 5,
          economic_days = 8, total_vacation = 10, total_economic = 8\<rparr>"
    by code_simp
  from vacation_allocation_order [OF h c refl refl n, of "days 2009"] h c a u e
  show ?thesis by simp
qed

text \<open>
  The claim as stated fails for an offset-naive hire date: with the same 15 used days
  the function raises and returns no remaining values.
\<close>

theorem vacation_allocation_order_counterexample:
  "0 \<le> vacation_used [example_permit ''p1'' VACATION_57 15 APPROVED] \<and>
   calculate_days_available (days 2009) (example_teacher FULL_TIME (Naive 0))
     [example_permit ''p1'' VACATION_57 15 APPROVED] = Inl TypeError"
  by code_simp

section \<open>Economic days\<close>

text \<open>
  C3 (as amended): for an employee with an offset-aware hire date and a contract type,
  of any contract type, and a non-negative total of approved economic days, the function
  returns a snapshot whose \<open>economic_days\<close> field is
  \<open>max 0 ((8 + t) - economic_used)\<close>, where \<open>t\<close> is \<open>years / 10\<close> truncated
  toward zero: the floor when the years of service are not negative, the ceiling when the
  hire date lies after the clock reading. \<open>total_economic\<close> equals
  \<open>economic_days\<close>.
\<close>

theorem economic_days_truncation:
  assumes "hire_date user = Some (Aware hired)" and "contract_type user = Some ct"
    and "yos = years_of_service (now - hired)"
    and "0 \<le> economic_used permits"
  shows "\<exists>d. calculate_days_available now user permits = Inr d \<and>
         (0 \<le> yos \<longrightarrow>
            economic_days d = max 0 ((8 + \<lfloor>yos / 10\<rfloor>) - economic_used permits)) \<and>
         (yos < 0 \<longrightarrow>
            economic_days d = max 0 ((8 + \<lceil>yos / 10\<rceil>) - economic_used permits)) \<and>
         total_economic d = economic_days d"
  using assms(1-3)
  by (simp add: calculate_days_available_profile accrued_economic_days_def py_int_def)

text \<open>A hourly teacher with 23 years of service and 3 approved economic days.\<close>

theorem economic_days_truncation_witness:
  "hire_date (example_teacher HOURLY (Aware 0)) = Some (Aware 0) \<and>
   contract_type (example_teacher HOURLY (Aware 0)) = Some HOURLY \<and>
   0 \<le> years_of_service (days 8401 - 0) \<and>
   \<lfloor>years_of_service (days 8401 - 0) / 10\<rfloor> = 2 \<and>
   economic_used [example_permit ''p1'' ECONOMIC_62 3 APPROVED] = 3 \<and>
   calculate_days_available (days 8401) (example_teacher HOURLY (Aware 0))
     [example_permit ''p1'' ECONOMIC_62 3 APPROVED] =
     Inr \<lparr>vacation_period_1 = 10, vacation_period_2 = 10, vacation_additional = 0,
          economic_days = 7, total_vacation = 20, total_economic = 7\<rparr>"
proof -
  have h: "hire_date (example_teacher HOURLY (Aware 0)) = Some (Aware 0)"
    and c: "contract_type (example_teacher HOURLY (Aware 0)) = Some HOURLY"
    by (simp_all add: example_teacher_def)
  have y: "0 \<le> years_of_service (days 8401 - 0)"
    and f: "\<lfloor>years_of_service (days 8401 - 0) / 10\<rfloor> = 2"
    and u: "economic_used [example_permit ''p1'' ECONOMIC_62 3 APPROVED] = 3"
    and e: "calculate_days_available (days 8401) (example_teacher HOURLY (Aware 0))
     [example_permit ''p1'' ECONOMIC_62 3 APPROVED] =
     Inr \<lparr>vacation_period_1 = 10, vacation_period_2 = 10, vacation_additional = 0,
          economic_days = 7, total_vacation = 20, total_economic = 7\<rparr>"
    by code_simp+
  have n: "0 \<le> economic_used [example_permit ''p1'' ECONOMIC_62 3 APPROVED]"
    by (simp add: u)
  from economic_days_truncation [OF h c refl n, of "days 8401"] h c y f u e
  show ?thesis by simp
qed

text \<open>
  The claim as stated fails twice. With the floor: for a teacher whose aware hire date
  is one day after the clock reading the code reports 8 economic days, the floor formula
  gives 7. For every employee with a hire date: with an offset-naive hire date the
  function raises.
\<close>

theorem economic_days_floor_counterexample:
  "calculate_days_available 0 (example_teacher FULL_TIME (Aware (days 1))) [] =
     Inr \<lparr>vacation_period_1 = 10, vacation_period_2 = 10, vacation_additional = 0,
          economic_days = 8, total_vacation = 20, total_economic = 8\<rparr> \<and>
   max 0 ((8 + \<lfloor>years_of_service (0 - days 1) / 10\<rfloor>) - economic_used []) = 7 \<and>
   calculate_days_available 0 (example_teacher HOURLY (Naive (days 1))) [] = Inl TypeError"
  by code_simp

section \<open>The balance check of a new request\<close>

text \<open>
  C4 (as amended): whenever the snapshot of the employee is computed from the permit
  history (the function returns, which it does unless the hire date is offset-naive),
  the balance check fails with \<open>InsufficientBalance\<close> exactly when the requested
  days exceed \<open>total_vacation\<close> (for a vacation request) or \<open>total_economic\<close>
  (for an economic request) of that snapshot, and passes otherwise. So does
  \<open>create_permit\<close> for a teacher, on the history read from the collection: it raises
  that error, or else returns and stores the new permit.
\<close>

theorem balance_check_exact:
  assumes "calculate_days_available now user permits = Inr d"
    and "available =
           (if new_permit_type pd = VACATION_57 then total_vacation d else total_economic d)"
  shows "check_balance now user permits pd =
           (if new_days_requested pd > available
            then Inl (InsufficientBalance (new_permit_type pd) available)
            else Inr ()) \<and>
         (role user = TEACHER \<and> permits = find_permits (user_id user) db \<longrightarrow>
          create_permit fresh_id now user pd db =
           (if new_days_requested pd > available
            then Inl (InsufficientBalance (new_permit_type pd) available)
            else Inr (new_permit fresh_id now user pd,
                      db @ [new_permit fresh_id now user pd])))"
  using assms
  by (cases "new_permit_type pd") (auto simp: create_permit_def check_balance_def Let_def)

text \<open>
  The spec's example: with 12 vacation days left, a request of 12 days passes and a
  request of 13 days is refused.
\<close>

theorem balance_check_exact_witness:
  "role (example_teacher FULL_TIME (Aware 0)) = TEACHER \<and>
   calculate_days_available (days 1000) (example_teacher FULL_TIME (Aware 0))
     (find_permits (user_id (example_teacher FULL_TIME (Aware 0)))
        [example_permit ''p1'' VACATION_57 8 APPROVED]) =
     Inr \<lparr>vacation_period_1 = 2, vacation_period_2 = 10, vacation_additional = 0,
          economic_days = 8, total_vacation = 12, total_economic = 8\<rparr> \<and>
   create_permit ''p2'' (days 1000) (example_teacher FULL_TIME (Aware 0))
     (example_request VACATION_57 12) [example_permit ''p1'' VACATION_57 8 APPROVED] =
     Inr (new_permit ''p2'' (days 1000) (example_teacher FULL_TIME (Aware 0))
            (example_request VACATION_57 12),
          [example_permit ''p1'' VACATION_57 8 APPROVED] @
          [new_permit ''p2'' (days 1000) (example_teacher FULL_TIME (Aware 0))
             (example_request VACATION_57 12)]) \<and>
   create_permit ''p2'' (days 1000) (example_teacher FULL_TIME (Aware 0))
     (example_request VACATION_57 13) [example_permit ''p1'' VACATION_57 8 APPROVED] =
     Inl (InsufficientBalance VACATION_57 12)"
proof -
  have r: "role (example_teacher FULL_TIME (Aware 0)) = TEACHER"
    by (simp add: example_teacher_def)
  have t: "calculate_days_available (days 1000) (example_teacher FULL_TIME (Aware 0))
     (find_permits (user_id (example_teacher FULL_TIME (Aware 0)))
        [example_permit ''p1'' VACATION_57 8 APPROVED]) =
     Inr \<lparr>vacation_period_1 = 2, vacation_period_2 = 10, vacation_additional = 0,
          economic_days = 8, total_vacation = 12, total_economic = 8\<rparr>"
    by code_simp
  have k: "new_permit_type (example_request VACATION_57 n) = VACATION_57"
    and n: "new_days_requested (example_request VACATION_57 n) = n" for n
    by (simp_all add: example_request_def)
  from balance_check_exact [where db = "[example_permit ''p1'' VACATION_57 8 APPROVED]"
      and pd = "example_request VACATION_57 12" and fresh_id = "''p2''", OF t refl]
    balance_check_exact [where db = "[example_permit ''p1'' VACATION_57 8 APPROVED]"
      and pd = "example_request VACATION_57 13" and fresh_id = "''p2''", OF t refl]
    r t k n
  show ?thesis by simp
qed

text \<open>
  The claim as stated, for every employee, fails for a teacher with an offset-naive hire
  date: the request neither fails with \<open>InsufficientBalance\<close> nor succeeds, it
  raises \<open>TypeError\<close>, whatever the requested days.
\<close>

theorem balance_check_exact_counterexample:
  "create_permit ''p2'' (days 1000) (example_teacher FULL_TIME (Naive 0))
     (example_request VACATION_57 12) [example_permit ''p1'' VACATION_57 8 APPROVED] =
     Inl TypeError \<and>
   create_permit ''p2'' (days 1000) (example_teacher FULL_TIME (Naive 0))
     (example_request VACATION_57 13) [example_permit ''p1'' VACATION_57 8 APPROVED] =
     Inl TypeError"
  by code_simp

section \<open>Pending and rejected permits\<close>

text \<open>
  C5: only approved permits count as consumed days. Adding a pending or rejected permit
  anywhere in the permit list, or removing it, leaves the result of
  \<open>calculate_days_available\<close> unchanged, and with it the verdict of the balance check.
\<close>

theorem only_approved_permits_count:
  assumes "status p = PENDING \<or> status p = REJECTED"
  shows "calculate_days_available now user (xs @ p # ys) =
           calculate_days_available now user (xs @ ys) \<and>
         check_balance now user (xs @ p # ys) pd = check_balance now user (xs @ ys) pd"
proof -
  from assms have "status p \<noteq> APPROVED" by auto
  then have "calculate_days_available now user (xs @ p # ys) =
               calculate_days_available now user (xs @ ys)"
    by (intro calculate_days_available_used used_drop_not_approved)
  then show ?thesis by (simp add: check_balance_def)
qed

theorem only_approved_permits_count_witness:
  "status (example_permit ''p2'' VACATION_57 7 PENDING) = PENDING \<and>
   calculate_days_available (days 1000) (example_teacher FULL_TIME (Aware 0))
     ([example_permit ''p1'' VACATION_57 8 APPROVED] @
      example_permit ''p2'' VACATION_57 7 PENDING #
      [example_permit ''p3'' ECONOMIC_62 2 APPROVED]) =
   calculate_days_available (days 1000) (example_teacher FULL_TIME (Aware 0))
     ([example_permit ''p1'' VACATION_57 8 APPROVED] @
      [example_permit ''p3'' ECONOMIC_62 2 APPROVED]) \<and>
   calculate_days_available (days 1000) (example_teacher FULL_TIME (Aware 0))
     ([example_permit ''p1'' VACATION_57 8 APPROVED] @
      [example_permit ''p3'' ECONOMIC_62 2 APPROVED]) =
     Inr \<lparr>vacation_period_1 = 2, vacation_period_2 = 10, vacation_additional = 0,
          economic_days = 6, total_vacation = 12, total_economic = 6\<rparr> \<and>
   check_balance (days 1000) (example_teacher FULL_TIME (Aware 0))
     ([example_permit ''p1'' VACATION_57 8 APPROVED] @
      example_permit ''p2'' VACATION_57 7 PENDING #
      [example_permit ''p3'' ECONOMIC_62 2 APPROVED]) (example_request VACATION_57 12) =
   Inr ()"
proof -
  have s: "status (example_permit ''p2'' VACATION_57 7 PENDING) = PENDING"
    by (simp add: example_permit_def)
  have e: "calculate_days_available (days 1000) (example_teacher FULL_TIME (Aware 0))
     ([example_permit ''p1'' VACATION_57 8 APPROVED] @
      [example_permit ''p3'' ECONOMIC_62 2 APPROVED]) =
     Inr \<lparr>vacation_period_1 = 2, vacation_period_2 = 10, vacation_additional = 0,
          economic_days = 6, total_vacation = 12, total_economic = 6\<rparr>"
    by code_simp
  have b: "check_balance (days 1000) (example_teacher FULL_TIME (Aware 0))
     ([example_permit ''p1'' VACATION_57 8 APPROVED] @
      [example_permit ''p3'' ECONOMIC_62 2 APPROVED]) (example_request VACATION_57 12) =
     Inr ()"
    by code_simp
  from only_approved_permits_count [OF disjI1, OF s, of "days 1000"
      "example_teacher FULL_TIME (Aware 0)" "[example_permit ''p1'' VACATION_57 8 APPROVED]"
      "[example_permit ''p3'' ECONOMIC_62 2 APPROVED]" "example_request VACATION_57 12"] s e b
  show ?thesis by simp
qed

section \<open>Bounds on the snapshot\<close>

text \<open>
  C6: for every employee and every permit list whose requested day counts are all
  non-negative, each of the six fields of the snapshot the function returns is at
  least 0, also when more days were used than were available. (Every field is a
  \<open>max 0\<close>.)
\<close>

theorem snapshot_fields_nonneg:
  assumes "\<forall>p \<in> set permits. 0 \<le> days_requested p"
    and "calculate_days_available now user permits = Inr d"
  shows "0 \<le> vacation_period_1 d \<and> 0 \<le> vacation_period_2 d \<and> 0 \<le> vacation_additional d \<and>
         0 \<le> economic_days d \<and> 0 \<le> total_vacation d \<and> 0 \<le> total_economic d"
  using assms(2)
  by (auto simp: calculate_days_available_def zero_days_def Let_def
      split: option.splits sum.splits)

text \<open>Forty used vacation days and twenty used economic days against 20 and 8.\<close>

theorem snapshot_fields_nonneg_witness:
  "0 \<le> days_requested (example_permit ''p1'' VACATION_57 40 APPROVED) \<and>
   0 \<le> days_requested (example_permit ''p2'' ECONOMIC_62 20 APPROVED) \<and>
   calculate_days_available (days 1000) (example_teacher FULL_TIME (Aware 0))
     [example_permit ''p1'' VACATION_57 40 APPROVED,
      example_permit ''p2'' ECONOMIC_62 20 APPROVED] =
     Inr \<lparr>vacation_period_1 = 0, vacation_period_2 = 0, vacation_additional = 0,
          economic_days = 0, total_vacation = 0, total_economic = 0\<rparr> \<and>
   0 \<le> total_vacation
     \<lparr>vacation_period_1 = 0, vacation_period_2 = 0, vacation_additional = 0,
      economic_days = 0, total_vacation = 0, total_economic = 0\<rparr>"
proof -
  have n: "\<forall>p \<in> set [example_permit ''p1'' VACATION_57 40 APPROVED,
                      example_permit ''p2'' ECONOMIC_62 20 APPROVED]. 0 \<le> days_requested p"
    by (simp add: example_permit_def)
  have e: "calculate_days_available (days 1000) (example_teacher FULL_TIME (Aware 0))
     [example_permit ''p1'' VACATION_57 40 APPROVED,
      example_permit ''p2'' ECONOMIC_62 20 APPROVED] =
     Inr \<lparr>vacation_period_1 = 0, vacation_period_2 = 0, vacation_additional = 0,
          economic_days = 0, total_vacation = 0, total_economic = 0\<rparr>"
    by code_simp
  from snapshot_fields_nonneg [OF n e] n e
  show ?thesis by simp
qed

section \<open>Negative day counts\<close>

text \<open>
  C10 (as amended): when the approved vacation days of an employee with an offset-aware
  hire date and a contract type sum to a strictly negative \<open>u\<close>, the function
  returns a snapshot with \<open>vacation_period_1 = 10 - u\<close>, above the cap of 10, period 2
  and the additional bucket at their caps, and \<open>total_vacation = 20 + additional - u\<close>:
  an approved permit with a negative day count raises the reported balance above the
  entitlement.
\<close>

theorem negative_days_inflate_balance:
  assumes "hire_date user = Some (Aware hired)" and "contract_type user = Some ct"
    and "additional = accrued_vacation_additional ct (years_of_service (now - hired))"
    and "u = vacation_used permits" and "u < 0"
  shows "\<exists>d. calculate_days_available now user permits = Inr d \<and>
         vacation_period_1 d = 10 - u \<and> 10 < vacation_period_1 d \<and>
         vacation_period_2 d = 10 \<and> vacation_additional d = additional \<and>
         total_vacation d = 20 + additional - u"
  using assms accrued_vacation_additional_nonneg [of ct "years_of_service (now - hired)"]
  by (simp add: calculate_days_available_profile)

theorem negative_days_inflate_balance_witness:
  "hire_date (example_teacher PART_TIME (Aware 0)) = Some (Aware 0) \<and>
   contract_type (example_teacher PART_TIME (Aware 0)) = Some PART_TIME \<and>
   vacation_used [example_permit ''p1'' VACATION_57 (- 3) APPROVED] = - 3 \<and>
   accrued_vacation_additional PART_TIME (years_of_service (days 2009 - 0)) = 5 \<and>
   calculate_days_available (days 2009) (example_teacher PART_TIME (Aware 0))
     [example_permit ''p1'' VACATION_57 (- 3) APPROVED] =
     Inr \<lparr>vacation_period_1 = 13, vacation_period_2 = 10, vacation_additional = 5,
          economic_days = 8, total_vacation = 28, total_economic = 8\<rparr>"
proof -
  have h: "hire_date (example_teacher PART_TIME (Aware 0)) = Some (Aware 0)"
    and c: "contract_type (example_teacher PART_TIME (Aware 0)) = Some PART_TIME"
    by (simp_all add: example_teacher_def)
  have u: "vacation_used [example_permit ''p1'' VACATION_57 (- 3) APPROVED] = - 3"
    and a: "accrued_vacation_additional PART_TIME (years_of_service (days 2009 - 0)) = 5"
    and e: "calculate_days_available (days 2009) (example_teacher PART_TIME (Aware 0))
     [example_permit ''p1'' VACATION_57 (- 3) APPROVED] =
     Inr \<lparr>vacation_period_1 = 13, vacation_period_2 = 10, vacation_additional = 5,
          economic_days = 8, total_vacation = 28, total_economic = 8\<rparr>"
    by code_simp+
  have n: "vacation_used [example_permit ''p1'' VACATION_57 (- 3) APPROVED] < 0"
    by (simp add: u)
  from negative_days_inflate_balance [OF h c refl refl n, of "days 2009"] h c u a e
  show ?thesis by simp
qed

text \<open>
  The claim as stated, for every employee with a hire date, fails for an offset-naive
  hire date: with the same negative permit the function raises and returns no snapshot.
\<close>

theorem negative_days_inflate_balance_counterexample:
  "vacation_used [example_permit ''p1'' VACATION_57 (- 3) APPROVED] < 0 \<and>
   calculate_days_available (days 2009) (example_teacher PART_TIME (Naive 0))
     [example_permit ''p1'' VACATION_57 (- 3) APPROVED] = Inl TypeError"
  by code_simp

section \<open>Missing profile data\<close>

text \<open>
  C7: an employee whose hire date is absent or whose contract type is absent gets the
  snapshot with all six fields equal to 0, for every permit list and clock reading; the
  function returns this snapshot as its ordinary result and raises nothing.
\<close>

theorem calculate_days_available_missing_profile:
  assumes "hire_date user = None \<or> contract_type user = None"
  shows "calculate_days_available now user permits =
           Inr \<lparr>vacation_period_1 = 0, vacation_period_2 = 0, vacation_additional = 0,
                economic_days = 0, total_vacation = 0, total_economic = 0\<rparr>"
  using assms
  by (auto simp: calculate_days_available_def zero_days_def split: option.splits)

theorem calculate_days_available_missing_profile_witness:
  "hire_date example_admin = None \<and>
   calculate_days_available (days 1000) example_admin
     [example_permit ''p1'' VACATION_57 15 APPROVED] =
     Inr \<lparr>vacation_period_1 = 0, vacation_period_2 = 0, vacation_additional = 0,
          economic_days = 0, total_vacation = 0, total_economic = 0\<rparr>"
proof -
  have h: "hire_date example_admin = None"
    by (simp add: example_admin_def)
  from calculate_days_available_missing_profile [OF disjI1, OF h, of "days 1000"
      "[example_permit ''p1'' VACATION_57 15 APPROVED]"] h
  show ?thesis by simp
qed

section \<open>Dependence on the clock\<close>

text \<open>
  C9 (as amended): \<open>calculate_days_available\<close> is a function of the employee, the
  permit list and the clock, which it reads itself. Two calls with the same employee and
  permits have the same outcome whenever the whole days elapsed since an offset-aware
  hire date are the same at both clock readings (and always when the hire date is absent
  or offset-naive); the function writes nothing.
\<close>

theorem calculate_days_available_clock:
  assumes "\<forall>hired. hire_date user = Some (Aware hired) \<longrightarrow>
             timedelta_days (now1 - hired) = timedelta_days (now2 - hired)"
  shows "calculate_days_available now1 user permits =
           calculate_days_available now2 user permits"
proof (cases "hire_date user")
  case None
  then show ?thesis by (simp add: calculate_days_available_def)
next
  case (Some hired)
  show ?thesis
  proof (cases hired)
    case (Aware h)
    with Some assms have "timedelta_days (now1 - h) = timedelta_days (now2 - h)"
      by simp
    with Some Aware show ?thesis
      by (simp add: calculate_days_available_def years_of_service_def
          split: option.splits)
  next
    case (Naive h)
    with Some show ?thesis
      by (simp add: calculate_days_available_def split: option.splits)
  qed
qed

text \<open>Two calls an hour apart within the same day of service.\<close>

theorem calculate_days_available_clock_witness:
  "timedelta_days (days 2009 - 0) = timedelta_days (days 2009 + 3600000000 - 0) \<and>
   calculate_days_available (days 2009) (example_teacher FULL_TIME (Aware 0))
     [example_permit ''p1'' VACATION_57 15 APPROVED] =
   calculate_days_available (days 2009 + 3600000000) (example_teacher FULL_TIME (Aware 0))
     [example_permit ''p1'' VACATION_57 15 APPROVED] \<and>
   calculate_days_available (days 2009) (example_teacher FULL_TIME (Aware 0))
     [example_permit ''p1'' VACATION_57 15 APPROVED] =
     Inr \<lparr>vacation_period_1 = 0, vacation_period_2 = 5, vacation_additional = 5,
          economic_days = 8, total_vacation = 10, total_economic = 8\<rparr>"
proof -
  have t: "timedelta_days (days 2009 - 0) = timedelta_days (days 2009 + 3600000000 - 0)"
    by code_simp
  have h: "\<forall>hired. hire_date (example_teacher FULL_TIME (Aware 0)) = Some (Aware hired) \<longrightarrow>
             timedelta_days (days 2009 - hired) =
             timedelta_days (days 2009 + 3600000000 - hired)"
    using t by (simp add: example_teacher_def)
  have e: "calculate_days_available (days 2009) (example_teacher FULL_TIME (Aware 0))
     [example_permit ''p1'' VACATION_57 15 APPROVED] =
     Inr \<lparr>vacation_period_1 = 0, vacation_period_2 = 5, vacation_additional = 5,
          economic_days = 8, total_vacation = 10, total_economic = 8\<rparr>"
    by code_simp
  from calculate_days_available_clock [OF h] t e
  show ?thesis by simp
qed

text \<open>
  The claim as stated fails: the same employee and the same (empty) permit list give
  different snapshots at two clock readings, 1000 and 2009 days after the hire date.
\<close>

theorem calculate_days_available_clock_counterexample:
  "calculate_days_available (days 1000) (example_teacher FULL_TIME (Aware 0)) [] \<noteq>
   calculate_days_available (days 2009) (example_teacher FULL_TIME (Aware 0)) []"
  by code_simp

section \<open>Status transitions\<close>

text \<open>
  C8 (as amended): a permit stored by \<open>create_permit\<close> starts as pending. A review
  carrying approved or rejected, made by an administrator on an existing permit, sets
  the status of that permit to the status the review carries, whatever the current
  status of the permit is, and records the reviewer's name and the clock reading as
  review time; the rejection reason is replaced only by a non-empty one and every other
  field is kept. The stored document is the returned one, and the documents with other
  ids are unchanged. The code has no check that the permit is still pending.
\<close>

theorem review_permit_sets_status:
  assumes "role current_user = ADMIN" and "find_one pid db = Some p"
    and "review_status review = APPROVED \<or> review_status review = REJECTED"
  shows "(create_permit fresh_id t u pd db0 = Inr (q, db1) \<longrightarrow>
            status q = PENDING \<and> db1 = db0 @ [q]) \<and>
         (\<exists>p' db'. review_permit now current_user pid review db = Inr (p', db') \<and>
            status p' = review_status review \<and>
            reviewed_at p' = Some (Aware now) \<and>
            reviewed_by p' = Some (name current_user) \<and>
            p' = p\<lparr>status := review_status review,
                   reviewed_at := Some (Aware now),
                   reviewed_by := Some (name current_user),
                   rejection_reason :=
                     (case review_rejection_reason review of
                        None \<Rightarrow> rejection_reason p
                      | Some r \<Rightarrow> if r = [] then rejection_reason p else Some r)\<rparr> \<and>
            find_one pid db' = Some p' \<and>
            length db' = length db \<and>
            filter (\<lambda>q. permit_id q \<noteq> pid) db' = filter (\<lambda>q. permit_id q \<noteq> pid) db)"
proof -
  let ?p' = "apply_review now current_user review p"
  let ?db' = "update_one pid (apply_review now current_user review) db"
  have "status q = PENDING \<and> db1 = db0 @ [q]"
    if "create_permit fresh_id t u pd db0 = Inr (q, db1)"
    using that
    by (auto simp: create_permit_def new_permit_def Let_def split: if_splits sum.splits)
  moreover have "review_permit now current_user pid review db = Inr (?p', ?db')"
    using assms(1,2) by (simp add: review_permit_def)
  moreover have "status ?p' = review_status review"
    and "reviewed_at ?p' = Some (Aware now)"
    and "reviewed_by ?p' = Some (name current_user)"
    and "?p' = p\<lparr>status := review_status review,
                   reviewed_at := Some (Aware now),
                   reviewed_by := Some (name current_user),
                   rejection_reason :=
                     (case review_rejection_reason review of
                        None \<Rightarrow> rejection_reason p
                      | Some r \<Rightarrow> if r = [] then rejection_reason p else Some r)\<rparr>"
    by (simp_all add: apply_review_def)
  moreover have "find_one pid ?db' = Some ?p'"
    using assms(2) by (simp add: find_one_update_one permit_id_apply_review)
  moreover have "length ?db' = length db"
    by (simp add: length_update_one)
  moreover have "filter (\<lambda>q. permit_id q \<noteq> pid) ?db' = filter (\<lambda>q. permit_id q \<noteq> pid) db"
    by (simp add: update_one_others permit_id_apply_review)
  ultimately show ?thesis by blast
qed

text \<open>A pending permit is approved.\<close>

theorem review_permit_sets_status_witness:
  "role example_admin = ADMIN \<and>
   find_one ''p1'' [example_permit ''p1'' VACATION_57 5 PENDING] =
     Some (example_permit ''p1'' VACATION_57 5 PENDING) \<and>
   review_status (example_review APPROVED) = APPROVED \<and>
   create_permit ''p1'' 0 (example_teacher FULL_TIME (Aware 0))
     (example_request VACATION_57 5) [] =
     Inr (example_permit ''p1'' VACATION_57 5 PENDING,
          [example_permit ''p1'' VACATION_57 5 PENDING]) \<and>
   review_permit (days 1) example_admin ''p1'' (example_review APPROVED)
     [example_permit ''p1'' VACATION_57 5 PENDING] =
     Inr ((example_permit ''p1'' VACATION_57 5 APPROVED)
            \<lparr>reviewed_at := Some (Aware (days 1)),
             reviewed_by := Some ''Administrador Principal''\<rparr>,
          [(example_permit ''p1'' VACATION_57 5 APPROVED)
            \<lparr>reviewed_at := Some (Aware (days 1)),
             reviewed_by := Some ''Administrador Principal''\<rparr>])"
proof -
  have r: "role example_admin = ADMIN"
    by (simp add: example_admin_def)
  have f: "find_one ''p1'' [example_permit ''p1'' VACATION_57 5 PENDING] =
     Some (example_permit ''p1'' VACATION_57 5 PENDING)"
    by (simp add: find_one_def example_permit_def)
  have s: "review_status (example_review APPROVED) = APPROVED"
    by (simp add: example_review_def)
  have c: "create_permit ''p1'' 0 (example_teacher FULL_TIME (Aware 0))
             (example_request VACATION_57 5) [] =
     Inr (example_permit ''p1'' VACATION_57 5 PENDING,
          [example_permit ''p1'' VACATION_57 5 PENDING])"
    by code_simp
  have v: "review_permit (days 1) example_admin ''p1'' (example_review APPROVED)
     [example_permit ''p1'' VACATION_57 5 PENDING] =
     Inr ((example_permit ''p1'' VACATION_57 5 APPROVED)
            \<lparr>reviewed_at := Some (Aware (days 1)),
             reviewed_by := Some ''Administrador Principal''\<rparr>,
          [(example_permit ''p1'' VACATION_57 5 APPROVED)
            \<lparr>reviewed_at := Some (Aware (days 1)),
             reviewed_by := Some ''Administrador Principal''\<rparr>])"
    by code_simp
  from review_permit_sets_status [where now = "days 1", OF r f disjI1, OF s] r f s c v
  show ?thesis by simp
qed

text \<open>
  The claim as stated fails: a permit that was approved is reviewed again and becomes
  rejected, a transition out of a state the claim calls final.
\<close>

theorem review_permit_sets_status_counterexample:
  "status ((example_permit ''p1'' VACATION_57 5 APPROVED)
            \<lparr>reviewed_at := Some (Aware (days 1)),
             reviewed_by := Some ''Administrador Principal''\<rparr>)
     = APPROVED \<and>
   review_permit (days 2) example_admin ''p1'' (example_review REJECTED)
     [(example_permit ''p1'' VACATION_57 5 APPROVED)
        \<lparr>reviewed_at := Some (Aware (days 1)),
         reviewed_by := Some ''Administrador Principal''\<rparr>] =
     Inr ((example_permit ''p1'' VACATION_57 5 REJECTED)
            \<lparr>reviewed_at := Some (Aware (days 2)),
             reviewed_by := Some ''Administrador Principal''\<rparr>,
          [(example_permit ''p1'' VACATION_57 5 REJECTED)
            \<lparr>reviewed_at := Some (Aware (days 2)),
             reviewed_by := Some ''Administrador Principal''\<rparr>])"
  by code_simp

end
